theory Spec2Isabelle
  imports Main
begin

section \<open>JavaScript values\<close>

text \<open>
  The values that the server reads from a parsed JSON body or from the query string:
  \<open>undefined\<close> (also what reading a missing property gives), \<open>null\<close>, booleans,
  numbers (the integers; fractions and NaN are left out), strings, and the built-in
  members that every plain object inherits from \<open>Object.prototype\<close>. Nested objects
  and arrays as member values are not part of the model.
\<close>

datatype jsval =
    JUndefined
  | JNull
  | JBool bool
  | JNum int
  | JStr string
  | JNative string

text \<open>A plain object: its own enumerable properties, in insertion order.\<close>

type_synonym jsobj = "(string \<times> jsval) list"

text \<open>JavaScript truthiness, as tested by \<open>!x\<close>, \<open>x && y\<close> and \<open>x || y\<close>.\<close>

fun truthy :: "jsval \<Rightarrow> bool" where
  "truthy JUndefined = False"
| "truthy JNull = False"
| "truthy (JBool b) = b"
| "truthy (JNum n) = (n \<noteq> 0)"
| "truthy (JStr s) = (s \<noteq> [])"
| "truthy (JNative f) = True"

text \<open>The property names of \<open>Object.prototype\<close>, which every plain object inherits.\<close>

definition object_prototype_names :: "string list" where
  "object_prototype_names =
     [''constructor'', ''__defineGetter__'', ''__defineSetter__'', ''hasOwnProperty'',
      ''__lookupGetter__'', ''__lookupSetter__'', ''isPrototypeOf'',
      ''propertyIsEnumerable'', ''toString'', ''valueOf'', ''__proto__'',
      ''toLocaleString'']"

text \<open>
  \<open>obj[name]\<close> and \<open>obj.name\<close>: the own property if there is one, the inherited
  built-in for a name of \<open>Object.prototype\<close>, \<open>undefined\<close> otherwise.
\<close>

definition get_prop :: "jsobj \<Rightarrow> string \<Rightarrow> jsval" where
  "get_prop obj name =
     (case map_of obj name of
        Some v \<Rightarrow> v
      | None \<Rightarrow> if name \<in> set object_prototype_names then JNative name else JUndefined)"

text \<open>
  \<open>obj.name = v\<close> and the override in \<open>{...obj, name: v}\<close>: an existing own
  property keeps its place, a new one goes last.
\<close>

fun set_prop :: "jsobj \<Rightarrow> string \<Rightarrow> jsval \<Rightarrow> jsobj" where
  "set_prop [] name v = [(name, v)]"
| "set_prop ((k, x) # obj) name v =
     (if k = name then (k, v) # obj else (k, x) # set_prop obj name v)"

text \<open>Decimal rendering of numbers, as a template literal prints an integer.\<close>

fun show_nat :: "nat \<Rightarrow> string" where
  "show_nat n =
     (if n < 10 then [''0123456789'' ! n]
      else show_nat (n div 10) @ [''0123456789'' ! (n mod 10)])"

declare show_nat.simps [simp del]

definition show_int :: "int \<Rightarrow> string" where
  "show_int i = (if i < 0 then ''-'' @ show_nat (nat (- i)) else show_nat (nat i))"

text \<open>
  The text that a template literal \<open>`${v}`\<close> produces. An inherited built-in is a
  native function, except \<open>__proto__\<close>, which reads as the prototype object itself.
\<close>

fun to_string :: "jsval \<Rightarrow> string" where
  "to_string JUndefined = ''undefined''"
| "to_string JNull = ''null''"
| "to_string (JBool b) = (if b then ''true'' else ''false'')"
| "to_string (JNum n) = show_int n"
| "to_string (JStr s) = s"
| "to_string (JNative f) =
     (if f = ''__proto__'' then ''[object Object]''
      else ''function '' @ f @ ''() { [native code] }'')"



section \<open>Errors (src/lib/error.js)\<close>

text \<open>
  An \<open>Error\<close> object: its message and its \<open>code\<close> property, a number, which
  errors raised by libraries do not carry.
\<close>

record js_error =
  code :: "nat option"
  message :: string

text \<open>\<open>createError(code, message)\<close>: \<open>message || default\<close>, \<open>code || 500\<close>.\<close>

definition createError :: "nat \<Rightarrow> string \<Rightarrow> js_error" where
  "createError c m =
     \<lparr>code = Some (if c = 0 then 500 else c),
      message = (if m = [] then ''Oops! something went wrong.'' else m)\<rparr>"

section \<open>Field validation (lib/helpers)\<close>

text \<open>
  The \<open>forEach\<close> over \<open>fieldsToValidate\<close>: the first field whose rule is truthy and
  whose value in the entity is falsy throws, which ends the loop.
\<close>

fun check_fields :: "jsobj \<Rightarrow> jsobj \<Rightarrow> string list \<Rightarrow> js_error + unit" where
  "check_fields entity rules [] = Inr ()"
| "check_fields entity rules (field # rest) =
     (if truthy (get_prop rules field) \<and> \<not> truthy (get_prop entity field)
      then Inl (createError 400 (to_string (get_prop rules field) @ '' cannot be undefined''))
      else check_fields entity rules rest)"

text \<open>
  \<open>validateFields(entityToValidate, rules, fieldsToValidate)\<close>. An argument that is
  \<open>undefined\<close> or \<open>null\<close> is \<open>None\<close>; \<open>Object.keys(o).length === 0\<close> is \<open>o = []\<close>.
\<close>

definition validateFields ::
  "jsobj option \<Rightarrow> jsobj option \<Rightarrow> string list option \<Rightarrow> js_error + unit" where
  "validateFields entityToValidate rules fieldsToValidate =
     (case entityToValidate of
        None \<Rightarrow> Inl (createError 400 ''Entity to validate cannot be undefined or empty'')
      | Some entity \<Rightarrow>
          if entity = []
          then Inl (createError 400 ''Entity to validate cannot be undefined or empty'')
          else
            (case rules of
               None \<Rightarrow> Inl (createError 400 ''Rules cannot be undefined or empty'')
             | Some rs \<Rightarrow>
                 if rs = [] then Inl (createError 400 ''Rules cannot be undefined or empty'')
                 else
                   (case fieldsToValidate of
                      None \<Rightarrow>
                        Inl (createError 400 ''Fields to validate cannot be undefined or empty'')
                    | Some names \<Rightarrow>
                        if names = []
                        then Inl (createError 400
                               ''Fields to validate cannot be undefined or empty'')
                        else check_fields entity rs names)))"

section \<open>The users table (models/User) and the external packages\<close>

text \<open>
  A row of the \<open>users\<close> table with the columns that the model declares: an integer
  primary key and four text columns, none of them nullable. Columns that the ORM keeps on
  its own account (the times of creation and update) are not in the declaration and are
  left out.
\<close>

record user =
  user_id :: int
  firstname :: string
  lastname :: string
  email :: string
  password :: string

text \<open>
  The table: its rows in insertion order and the next value of the auto-increment
  counter of the primary key.
\<close>

record store =
  rows :: "user list"
  auto_increment :: int

text \<open>
  The table as \<open>sync({force: true})\<close> leaves it when the application starts:
  dropped and created again.
\<close>

definition empty_store :: store where
  "empty_store = \<lparr>rows = [], auto_increment = 1\<rparr>"

text \<open>
  The calls that reach the table through the model. The database answers every call: a
  lost connection is not modelled.
\<close>

datatype orm_call = FindOne jsval | Create jsobj

text \<open>
  What a request handler can change: the table, the trace of calls to the model, and the
  lines written with \<open>console.log\<close>.
\<close>

record world =
  db :: store
  orm_calls :: "orm_call list"
  console :: "string list"

text \<open>
  The packages that the repository calls but does not contain, as parameters:
  \<^item> \<open>bcrypt_hash s rounds salt\<close> is \<open>bcrypt.hash(s, rounds)\<close>, with the salt it draws
    made an argument; it rejects with an error or resolves to the hash;
  \<^item> \<open>bcrypt_compare s hash\<close> is \<open>bcrypt.compare(s, hash)\<close>;
  \<^item> \<open>model_validate attrs\<close> is the validation that the model runs before an insert
    (\<open>isEmail\<close> on the email among it): the error it rejects with, if any;
  \<^item> \<open>db_text_eq v column\<close> is how the database compares a text column with a value
    that is not a string, and \<open>db_text v\<close> the text it stores for such a value;
  \<^item> \<open>db_key v\<close> is what the database makes of an \<open>id\<close> that the attributes
    bring themselves: an error, the request to generate the key after all, or the key;
    \<open>duplicate_key\<close> is the error of an insert under a key that a row already has.
\<close>

record env =
  bcrypt_hash :: "jsval \<Rightarrow> nat \<Rightarrow> string \<Rightarrow> js_error + string"
  bcrypt_compare :: "jsval \<Rightarrow> jsval \<Rightarrow> js_error + bool"
  model_validate :: "jsobj \<Rightarrow> js_error option"
  db_text_eq :: "jsval \<Rightarrow> string \<Rightarrow> bool"
  db_text :: "jsval \<Rightarrow> string"
  db_key :: "jsval \<Rightarrow> js_error + int option"
  duplicate_key :: js_error

text \<open>The \<open>dataValues\<close> of the instance that the model builds from a row.\<close>

definition dataValues :: "user \<Rightarrow> jsobj" where
  "dataValues r =
     [(''id'', JNum (user_id r)),
      (''firstname'', JStr (firstname r)),
      (''lastname'', JStr (lastname r)),
      (''email'', JStr (email r)),
      (''password'', JStr (password r))]"

text \<open>The clause \<open>where: {email: v}\<close> on a row: equality of text for a string.\<close>

definition where_email :: "env \<Rightarrow> jsval \<Rightarrow> user \<Rightarrow> bool" where
  "where_email env v r =
     (case v of JStr e \<Rightarrow> email r = e | _ \<Rightarrow> db_text_eq env v (email r))"

text \<open>The option \<open>attributes: [...]\<close>: only these columns are selected.\<close>

definition select_attributes :: "string list option \<Rightarrow> jsobj \<Rightarrow> jsobj" where
  "select_attributes attributes obj =
     (case attributes of
        None \<Rightarrow> obj
      | Some names \<Rightarrow> filter (\<lambda>(k, v). k \<in> set names) obj)"

text \<open>
  \<open>User.findOne({where: {email: v}, attributes})\<close>: the first matching row as an
  instance, or \<open>null\<close>.
\<close>

definition findOne ::
  "env \<Rightarrow> jsval \<Rightarrow> string list option \<Rightarrow> world \<Rightarrow> jsobj option \<times> world" where
  "findOne env v attributes w =
     (map_option (\<lambda>r. select_attributes attributes (dataValues r))
        (find (where_email env v) (rows (db w))),
      w\<lparr>orm_calls := orm_calls w @ [FindOne v]\<rparr>)"

text \<open>The text that a text column takes from an attribute.\<close>

definition column_text :: "env \<Rightarrow> jsval \<Rightarrow> string" where
  "column_text env v = (case v of JStr s \<Rightarrow> s | _ \<Rightarrow> db_text env v)"

text \<open>
  The primary key that an insert asks for: none (the database generates it) when the
  attributes have no \<open>id\<close> or a \<open>null\<close> one.
\<close>

definition requested_key :: "env \<Rightarrow> jsobj \<Rightarrow> js_error + int option" where
  "requested_key env attrs =
     (case get_prop attrs ''id'' of
        JUndefined \<Rightarrow> Inr None
      | JNull \<Rightarrow> Inr None
      | v \<Rightarrow> db_key env v)"

text \<open>
  \<open>User.create(attrs)\<close>: validation first, then the insert. The key is the value of
  the auto-increment counter unless the attributes bring one; the primary key is
  unique, so a key that is taken makes the insert fail. Resolves to the saved instance,
  whose \<open>id\<close> is the key of the new row.
\<close>

definition insert_row :: "user \<Rightarrow> store \<Rightarrow> store" where
  "insert_row r table =
     \<lparr>rows = rows table @ [r],
      auto_increment = max (auto_increment table) (user_id r + 1)\<rparr>"

definition create :: "env \<Rightarrow> jsobj \<Rightarrow> world \<Rightarrow> (js_error + jsobj) \<times> world" where
  "create env attrs w =
     (let w1 = w\<lparr>orm_calls := orm_calls w @ [Create attrs]\<rparr> in
      case model_validate env attrs of
        Some e \<Rightarrow> (Inl e, w1)
      | None \<Rightarrow>
          (case requested_key env attrs of
             Inl e \<Rightarrow> (Inl e, w1)
           | Inr request \<Rightarrow>
               (let key = (case request of None \<Rightarrow> auto_increment (db w) | Some k \<Rightarrow> k);
                    r = \<lparr>user_id = key,
                         firstname = column_text env (get_prop attrs ''firstname''),
                         lastname = column_text env (get_prop attrs ''lastname''),
                         email = column_text env (get_prop attrs ''email''),
                         password = column_text env (get_prop attrs ''password'')\<rparr>
                in if key \<in> set (map user_id (rows (db w)))
                   then (Inl (duplicate_key env), w1)
                   else (Inr (dataValues r), w1\<lparr>db := insert_row r (db w)\<rparr>))))"

section \<open>HTTP responses and the error handler (src/lib/error.js)\<close>

text \<open>\<open>res.send\<close> of a string sends text, of an object sends its JSON.\<close>

datatype payload = Text string | Json jsobj

record response =
  status :: nat
  body :: payload

text \<open>
  \<open>errorHandler(error, req, res, next)\<close>: fills in a missing code and message, logs
  them, and responds with \<open>res.status(error.code).send(error.message)\<close>.
\<close>

definition errorHandler :: "js_error \<Rightarrow> world \<Rightarrow> response \<times> world" where
  "errorHandler error w =
     (let c = (case code error of None \<Rightarrow> 500 | Some n \<Rightarrow> if n = 0 then 500 else n);
          m = (if message error = [] then ''Oops! Something went wrong'' else message error)
      in (\<lparr>status = c, body = Text m\<rparr>,
          w\<lparr>console := console w @ [''Status Code '' @ show_nat c @ '': '' @ m]\<rparr>))"

section \<open>The user controller (src/controllers/user.js)\<close>

text \<open>
  \<open>validateUser(user, fieldsToValidate = [])\<close>: a parameter left out takes the default
  \<open>[]\<close>; the rules are the labels of the five columns.
\<close>

definition validationRules :: jsobj where
  "validationRules =
     [(''id'', JStr ''ID''),
      (''firstname'', JStr ''Firstname''),
      (''lastname'', JStr ''Lastname''),
      (''email'', JStr ''Email''),
      (''password'', JStr ''Password'')]"

definition validateUser :: "jsobj option \<Rightarrow> string list option \<Rightarrow> js_error + unit" where
  "validateUser user fieldsToValidate =
     (case user of
        None \<Rightarrow> Inl (createError 400 ''User cannot be undefined'')
      | Some u \<Rightarrow>
          validateFields (Some u) (Some validationRules)
            (Some (case fieldsToValidate of None \<Rightarrow> [] | Some names \<Rightarrow> names)))"

text \<open>\<open>validateEmail(email)\<close>: 400 for a falsy email, 409 when a row has it.\<close>

definition validateEmail :: "env \<Rightarrow> jsval \<Rightarrow> world \<Rightarrow> (js_error + unit) \<times> world" where
  "validateEmail env mail w =
     (if \<not> truthy mail then (Inl (createError 400 ''Email cannot be undefined''), w)
      else
        (case findOne env mail None w of
           (Some found, w1) \<Rightarrow> (Inl (createError 409 ''This email is already taken.''), w1)
         | (None, w1) \<Rightarrow> (Inr (), w1)))"

text \<open>
  Reading \<open>.email\<close> of \<open>undefined\<close> throws a \<open>TypeError\<close>, which has no code.
\<close>

definition undefined_read :: js_error where
  "undefined_read =
     \<lparr>code = None, message = ''Cannot read properties of undefined (reading 'email')''\<rparr>"

text \<open>
  A handler either sends a response (\<open>Inr\<close>) or passes the error it caught to
  \<open>next\<close> (\<open>Inl\<close>). The body of a request is the object that the JSON parser
  made of it, or \<open>None\<close> when \<open>req.body\<close> is \<open>undefined\<close>.

  \<open>createUser\<close>: validation, the duplicate check, the hash with cost 12, the insert,
  and 201 with the id of the saved user as text. The argument \<open>salt\<close> is the
  randomness that the hash draws.
\<close>

definition createUser ::
  "env \<Rightarrow> string \<Rightarrow> jsobj option \<Rightarrow> world \<Rightarrow> (js_error + response) \<times> world" where
  "createUser env salt reqbody w =
     (case validateUser reqbody (Some [''firstname'', ''lastname'', ''email'', ''password'']) of
        Inl e \<Rightarrow> (Inl e, w)
      | Inr _ \<Rightarrow>
          (case reqbody of
             None \<Rightarrow> (Inl undefined_read, w)
           | Some u \<Rightarrow>
               (case validateEmail env (get_prop u ''email'') w of
                  (Inl e, w1) \<Rightarrow> (Inl e, w1)
                | (Inr _, w1) \<Rightarrow>
                    (case bcrypt_hash env (get_prop u ''password'') 12 salt of
                       Inl e \<Rightarrow> (Inl e, w1)
                     | Inr hashedPassword \<Rightarrow>
                         (case create env (set_prop u ''password'' (JStr hashedPassword)) w1 of
                            (Inl e, w2) \<Rightarrow> (Inl e, w2)
                          | (Inr savedUser, w2) \<Rightarrow>
                              (Inr \<lparr>status = 201,
                                    body = Text (to_string (get_prop savedUser ''id''))\<rparr>,
                               w2))))))"

text \<open>
  \<open>authenticateUser\<close>: validation, the lookup by email, the comparison of the password
  with the stored hash, and 200 with the instance whose password is set to
  \<open>undefined\<close>.
\<close>

definition authenticateUser ::
  "env \<Rightarrow> jsobj option \<Rightarrow> world \<Rightarrow> (js_error + response) \<times> world" where
  "authenticateUser env reqbody w =
     (case validateUser reqbody (Some [''email'', ''password'']) of
        Inl e \<Rightarrow> (Inl e, w)
      | Inr _ \<Rightarrow>
          (case reqbody of
             None \<Rightarrow> (Inl undefined_read, w)
           | Some credentials \<Rightarrow>
               (case findOne env (get_prop credentials ''email'') None w of
                  (None, w1) \<Rightarrow> (Inl (createError 401 ''Invalid credentials''), w1)
                | (Some found, w1) \<Rightarrow>
                    (case bcrypt_compare env (get_prop credentials ''password'')
                            (get_prop found ''password'') of
                       Inl e \<Rightarrow> (Inl e, w1)
                     | Inr isValid \<Rightarrow>
                         if \<not> isValid
                         then (Inl (createError 401 ''Invalid credentials''), w1)
                         else
                           (Inr \<lparr>status = 200,
                                 body = Json (set_prop found ''password'' JUndefined)\<rparr>,
                            w1)))))"

text \<open>
  \<open>getUserByEmail(email)\<close>: 400 for a falsy email; the lookup selects id, firstname,
  lastname and email only; 400 when no row is found.
\<close>

definition getUserByEmail :: "env \<Rightarrow> jsval \<Rightarrow> world \<Rightarrow> (js_error + jsobj) \<times> world" where
  "getUserByEmail env mail w =
     (if \<not> truthy mail then (Inl (createError 400 ''Invalid email''), w)
      else
        (case findOne env mail (Some [''id'', ''firstname'', ''lastname'', ''email'']) w of
           (None, w1) \<Rightarrow>
             (Inl (createError 400 ''Could not find a user with the given email''), w1)
         | (Some found, w1) \<Rightarrow> (Inr found, w1)))"

text \<open>\<open>findUserByEmail\<close>: the email of the query string, and 200 with the instance.\<close>

definition findUserByEmail ::
  "env \<Rightarrow> jsval \<Rightarrow> world \<Rightarrow> (js_error + response) \<times> world" where
  "findUserByEmail env mail w =
     (case getUserByEmail env mail w of
        (Inl e, w1) \<Rightarrow> (Inl e, w1)
      | (Inr found, w1) \<Rightarrow> (Inr \<lparr>status = 200, body = Json found\<rparr>, w1))"

section \<open>The application (app.js, routes/user)\<close>

text \<open>
  \<open>app.use(errorHandler)\<close>: an error passed to \<open>next\<close> is answered by the error
  handler; a response that the handler sent stands.
\<close>

definition respond :: "(js_error + response) \<times> world \<Rightarrow> response \<times> world" where
  "respond r = (case r of (Inl e, w) \<Rightarrow> errorHandler e w | (Inr sent, w) \<Rightarrow> (sent, w))"

text \<open>The three routes under \<open>/users\<close>.\<close>

definition post_users :: "env \<Rightarrow> string \<Rightarrow> jsobj option \<Rightarrow> world \<Rightarrow> response \<times> world" where
  "post_users env salt reqbody w = respond (createUser env salt reqbody w)"


definition get_users :: "env \<Rightarrow> jsval \<Rightarrow> world \<Rightarrow> response \<times> world" where
  "get_users env mail w = respond (findUserByEmail env mail w)"

section \<open>A concrete instance for examples\<close>

text \<open>
  Stand-ins for the external packages, simple enough to evaluate: the hash is the salt
  followed by the password, a two-character salt is stripped to compare, the validation
  wants an \<open>@\<close> in a string email, and a key of its own must be a positive number.
\<close>

definition sample_env :: env where
  "sample_env =
     \<lparr>bcrypt_hash =
        (\<lambda>s rounds salt.
           case s of
             JStr p \<Rightarrow> Inr (salt @ p)
           | _ \<Rightarrow> Inl \<lparr>code = None, message = ''Illegal arguments''\<rparr>),
      bcrypt_compare =
        (\<lambda>s h.
           case s of
             JStr p \<Rightarrow> Inr (h = JStr (''$$'' @ p))
           | _ \<Rightarrow> Inl \<lparr>code = None, message = ''Illegal arguments''\<rparr>),
      model_validate =
        (\<lambda>attrs.
           case get_prop attrs ''email'' of
             JStr e \<Rightarrow>
               if CHR ''@'' \<in> set e then None
               else Some \<lparr>code = None, message = ''Validation error''\<rparr>
           | _ \<Rightarrow> Some \<lparr>code = None, message = ''Validation error''\<rparr>),
      db_text_eq = (\<lambda>v column. False),
      db_text = to_string,
      db_key =
        (\<lambda>v.
           case v of
             JNum k \<Rightarrow>
               if 0 < k then Inr (Some k)
               else Inl \<lparr>code = None, message = ''Out of range''\<rparr>
           | _ \<Rightarrow> Inl \<lparr>code = None, message = ''Incorrect integer value''\<rparr>),
      duplicate_key = \<lparr>code = None, message = ''Validation error''\<rparr>\<rparr>"

text \<open>The state of a freshly started application.\<close>

definition fresh_world :: world where
  "fresh_world = \<lparr>db = empty_store, orm_calls = [], console = []\<rparr>"

text \<open>The state after one registration with the sample packages and the salt \<open>$$\<close>.\<close>

definition registered_world :: world where
  "registered_world =
     \<lparr>db = \<lparr>rows = [\<lparr>user_id = 1, firstname = ''A'', lastname = ''B'',
                      email = ''a@b.com'', password = ''$$secret''\<rparr>],
            auto_increment = 2\<rparr>,
      orm_calls = [],
      console = []\<rparr>"

section \<open>Auxiliary facts\<close>

lemma rule_labels:
  "get_prop validationRules ''firstname'' = JStr ''Firstname''"
  "get_prop validationRules ''lastname'' = JStr ''Lastname''"
  "get_prop validationRules ''email'' = JStr ''Email''"
  "get_prop validationRules ''password'' = JStr ''Password''"
  by (simp_all add: get_prop_def validationRules_def)

lemma truthy_own_property:
  "truthy (get_prop u name) \<Longrightarrow> name \<notin> set object_prototype_names \<Longrightarrow> u \<noteq> []"
  by (auto simp: get_prop_def)

lemma required_not_inherited:
  "''firstname'' \<notin> set object_prototype_names"
  "''lastname'' \<notin> set object_prototype_names"
  "''email'' \<notin> set object_prototype_names"
  "''password'' \<notin> set object_prototype_names"
  by (simp_all add: object_prototype_names_def)

lemma validateUser_check:
  "u \<noteq> [] \<Longrightarrow> names \<noteq> [] \<Longrightarrow>
   validateUser (Some u) (Some names) = check_fields u validationRules names"
  by (simp add: validateUser_def validateFields_def validationRules_def)


lemma findOne_result:
  "findOne env v attributes w =
     (map_option (\<lambda>r. select_attributes attributes (dataValues r))
        (find (where_email env v) (rows (db w))),
      w\<lparr>orm_calls := orm_calls w @ [FindOne v]\<rparr>)"
  by (simp add: findOne_def)


lemma respond_error:
  "fst r = Inl e \<Longrightarrow>
   fst (respond r) =
     \<lparr>status = (case code e of None \<Rightarrow> 500 | Some n \<Rightarrow> if n = 0 then 500 else n),
      body = Text (if message e = [] then ''Oops! Something went wrong'' else message e)\<rparr>"
  by (cases r) (simp add: respond_def errorHandler_def Let_def)

lemma respond_sent: "fst r = Inr sent \<Longrightarrow> fst (respond r) = sent"
  by (cases r) (simp add: respond_def)




lemma map_of_set_prop: "map_of (set_prop obj name v) = (map_of obj)(name \<mapsto> v)"
  by (induction obj name v rule: set_prop.induct) auto

lemma get_set_prop_same: "get_prop (set_prop obj name v) name = v"
  by (simp add: get_prop_def map_of_set_prop)

lemma get_set_prop_other:
  "name' \<noteq> name \<Longrightarrow> get_prop (set_prop obj name v) name' = get_prop obj name'"
  by (simp add: get_prop_def map_of_set_prop)

lemma id_of_instance: "get_prop (dataValues r) ''id'' = JNum (user_id r)"
  by (simp add: get_prop_def dataValues_def)

lemma validateEmail_db: "db (snd (validateEmail env mail w)) = db w"
  by (simp add: validateEmail_def findOne_result split: option.splits)

lemma create_rejected: "create env attrs w = (Inl e, w') \<Longrightarrow> db w' = db w"
  by (auto simp: create_def Let_def split: option.splits sum.splits if_splits)

lemma create_saved:
  assumes "create env attrs w = (Inr saved, w')"
  shows "\<exists>r. saved = dataValues r
           \<and> rows (db w') = rows (db w) @ [r]
           \<and> email r = column_text env (get_prop attrs ''email'')
           \<and> password r = column_text env (get_prop attrs ''password'')"
  using assms
  by (auto simp: create_def Let_def insert_row_def split: option.splits sum.splits if_splits)

lemma createUser_sent:
  assumes "createUser env salt reqbody w = (Inr sent, w')"
  shows "\<exists>u w1 h saved.
           reqbody = Some u
           \<and> validateEmail env (get_prop u ''email'') w = (Inr (), w1)
           \<and> bcrypt_hash env (get_prop u ''password'') 12 salt = Inr h
           \<and> create env (set_prop u ''password'' (JStr h)) w1 = (Inr saved, w')
           \<and> sent = \<lparr>status = 201, body = Text (to_string (get_prop saved ''id''))\<rparr>"
  using assms
  by (auto simp: createUser_def split: sum.splits option.splits prod.splits)

lemma validateUser_registration:
  assumes "truthy (get_prop u ''firstname'')" and "truthy (get_prop u ''lastname'')"
      and "truthy (get_prop u ''email'')" and "truthy (get_prop u ''password'')"
  shows "validateUser (Some u) (Some [''firstname'', ''lastname'', ''email'', ''password''])
           = Inr ()"
proof -
  have "u \<noteq> []"
    using assms(3) required_not_inherited(3) by (rule truthy_own_property)
  then show ?thesis
    using assms by (simp add: validateUser_check rule_labels)
qed

lemma find_matching:
  "\<exists>x \<in> set xs. P x \<Longrightarrow> \<exists>y. find P xs = Some y"
  by (cases "find P xs") (auto simp: find_None_iff)

lemma validateEmail_taken:
  assumes "E \<noteq> []" and "\<exists>r \<in> set (rows (db w)). email r = E"
  shows "fst (validateEmail env (JStr E) w)
           = Inl \<lparr>code = Some 409, message = ''This email is already taken.''\<rparr>"
proof -
  from assms(2) have "\<exists>r \<in> set (rows (db w)). where_email env (JStr E) r"
    by (simp add: where_email_def)
  then have "\<exists>r. find (where_email env (JStr E)) (rows (db w)) = Some r"
    by (rule find_matching)
  then obtain r where "find (where_email env (JStr E)) (rows (db w)) = Some r" ..
  then show ?thesis
    using assms(1) by (simp add: validateEmail_def findOne_result createError_def)
qed

lemma createUser_taken:
  assumes valid: "truthy (get_prop u ''firstname'')" "truthy (get_prop u ''lastname'')"
                 "truthy (get_prop u ''password'')"
      and mail: "get_prop u ''email'' = JStr E" "E \<noteq> []"
      and taken: "\<exists>r \<in> set (rows (db w)). email r = E"
  shows "fst (createUser env salt (Some u) w)
           = Inl \<lparr>code = Some 409, message = ''This email is already taken.''\<rparr>"
proof -
  have ok: "validateUser (Some u) (Some [''firstname'', ''lastname'', ''email'', ''password''])
          = Inr ()"
    using valid mail by (simp add: validateUser_registration)
  have "fst (validateEmail env (JStr E) w)
          = Inl \<lparr>code = Some 409, message = ''This email is already taken.''\<rparr>"
    using mail(2) taken by (rule validateEmail_taken)
  then obtain w1 where "validateEmail env (JStr E) w
      = (Inl \<lparr>code = Some 409, message = ''This email is already taken.''\<rparr>, w1)"
    by (cases "validateEmail env (JStr E) w") simp
  then show ?thesis
    by (simp add: createUser_def ok mail(1))
qed






lemma show_int_1: "show_int 1 = ''1''"
  by (simp add: show_int_def show_nat.simps)

lemmas handler_defs =
  createUser_def authenticateUser_def findUserByEmail_def getUserByEmail_def
  validateUser_def validateFields_def validationRules_def validateEmail_def
  findOne_def create_def requested_key_def insert_row_def column_text_def
  where_email_def select_attributes_def dataValues_def get_prop_def
  object_prototype_names_def createError_def Let_def

lemmas sample_defs = sample_env_def fresh_world_def registered_world_def empty_store_def

section \<open>Field validation\<close>




section \<open>The error handler\<close>




section \<open>Registration\<close>

text \<open>
  C4. Whenever \<open>createUser\<close> sends a response, the table has exactly one row more than
  before, appended to the rows it had; the password of that row is the result of
  hashing the password of the input with cost 12 and the salt drawn; and the response is
  201 with the id of the new row as decimal text.
\<close>

theorem createUser_success:
  assumes "createUser env salt reqbody w = (Inr sent, w')"
  shows "\<exists>u h r.
           reqbody = Some u
           \<and> bcrypt_hash env (get_prop u ''password'') 12 salt = Inr h
           \<and> rows (db w') = rows (db w) @ [r]
           \<and> password r = h
           \<and> sent = \<lparr>status = 201, body = Text (show_int (user_id r))\<rparr>
           \<and> fst (post_users env salt reqbody w) = sent"
proof -
  from createUser_sent [OF assms] obtain u w1 h saved where
    body: "reqbody = Some u"
    and checked: "validateEmail env (get_prop u ''email'') w = (Inr (), w1)"
    and hashed: "bcrypt_hash env (get_prop u ''password'') 12 salt = Inr h"
    and created: "create env (set_prop u ''password'' (JStr h)) w1 = (Inr saved, w')"
    and sent: "sent = \<lparr>status = 201, body = Text (to_string (get_prop saved ''id''))\<rparr>"
    by blast
  from create_saved [OF created] obtain r where
    saved: "saved = dataValues r"
    and rows1: "rows (db w') = rows (db w1) @ [r]"
    and pw: "password r = column_text env (get_prop (set_prop u ''password'' (JStr h)) ''password'')"
    by blast
  have "db w1 = db w"
    using validateEmail_db [of env "get_prop u ''email''" w] checked by simp
  with rows1 have "rows (db w') = rows (db w) @ [r]" by simp
  moreover have "password r = h"
    using pw by (simp add: get_set_prop_same column_text_def)
  moreover have "sent = \<lparr>status = 201, body = Text (show_int (user_id r))\<rparr>"
    using sent saved by (simp add: id_of_instance)
  moreover have "fst (post_users env salt reqbody w) = sent"
    using assms by (simp add: post_users_def respond_sent)
  ultimately show ?thesis
    using body hashed by blast
qed

text \<open>The first registration on the freshly started application.\<close>

theorem createUser_success_witness:
  "createUser sample_env ''$$''
     (Some [(''firstname'', JStr ''A''), (''lastname'', JStr ''B''),
            (''email'', JStr ''a@b.com''), (''password'', JStr ''secret'')])
     fresh_world
     = (Inr \<lparr>status = 201, body = Text ''1''\<rparr>,
        registered_world
          \<lparr>orm_calls :=
             [FindOne (JStr ''a@b.com''),
              Create [(''firstname'', JStr ''A''), (''lastname'', JStr ''B''),
                      (''email'', JStr ''a@b.com''), (''password'', JStr ''$$secret'')]]\<rparr>)
   \<and> (\<exists>r. rows (db registered_world) = rows (db fresh_world) @ [r]
          \<and> password r = ''$$secret'')"
proof -
  let ?input = "[(''firstname'', JStr ''A''), (''lastname'', JStr ''B''),
                 (''email'', JStr ''a@b.com''), (''password'', JStr ''secret'')]"
  let ?w1 = "registered_world
          \<lparr>orm_calls :=
             [FindOne (JStr ''a@b.com''),
              Create [(''firstname'', JStr ''A''), (''lastname'', JStr ''B''),
                      (''email'', JStr ''a@b.com''), (''password'', JStr ''$$secret'')]]\<rparr>"
  have run: "createUser sample_env ''$$'' (Some ?input) fresh_world
               = (Inr \<lparr>status = 201, body = Text ''1''\<rparr>, ?w1)"
    by (simp add: handler_defs sample_defs show_int_1)
  from createUser_success [OF run] obtain u h r where
    "Some ?input = Some u"
    and "bcrypt_hash sample_env (get_prop u ''password'') 12 ''$$'' = Inr h"
    and "rows (db ?w1) = rows (db fresh_world) @ [r]"
    and "password r = h"
    by blast
  then have "rows (db registered_world) = rows (db fresh_world) @ [r]"
    and "password r = ''$$secret''"
    by (auto simp: sample_env_def get_prop_def)
  then have "\<exists>r. rows (db registered_world) = rows (db fresh_world) @ [r]
          \<and> password r = ''$$secret''"
    by blast
  with run show ?thesis by (rule conjI)
qed

text \<open>
  C5. Let the input have truthy firstname, lastname and password and the non-empty
  string E as email. If a row of the table has the email E, \<open>createUser\<close> passes on the
  error with code 409 and the response is 409. In particular, when a first registration
  of the input has succeeded, a second registration of the same input on the table it
  left, whatever salt is drawn, fails with 409.
\<close>

theorem createUser_duplicate_email:
  assumes valid: "truthy (get_prop u ''firstname'')" "truthy (get_prop u ''lastname'')"
                 "truthy (get_prop u ''password'')"
      and mail: "get_prop u ''email'' = JStr E" "E \<noteq> []"
  shows "((\<exists>r \<in> set (rows (db w)). email r = E) \<longrightarrow>
            fst (createUser env salt (Some u) w)
              = Inl \<lparr>code = Some 409, message = ''This email is already taken.''\<rparr>
            \<and> fst (post_users env salt (Some u) w)
              = \<lparr>status = 409, body = Text ''This email is already taken.''\<rparr>)
         \<and> (createUser env salt (Some u) w = (Inr sent, w1) \<longrightarrow>
            fst (createUser env salt' (Some u) w1)
              = Inl \<lparr>code = Some 409, message = ''This email is already taken.''\<rparr>
            \<and> fst (post_users env salt' (Some u) w1)
              = \<lparr>status = 409, body = Text ''This email is already taken.''\<rparr>)"
proof -
  have once: "fst (createUser env s (Some u) v)
                = Inl \<lparr>code = Some 409, message = ''This email is already taken.''\<rparr>
              \<and> fst (post_users env s (Some u) v)
                = \<lparr>status = 409, body = Text ''This email is already taken.''\<rparr>"
    if "\<exists>r \<in> set (rows (db v)). email r = E" for s v
  proof -
    have "fst (createUser env s (Some u) v)
            = Inl \<lparr>code = Some 409, message = ''This email is already taken.''\<rparr>"
      using valid mail that by (rule createUser_taken)
    then show ?thesis
      by (simp add: post_users_def respond_error)
  qed
  have "\<exists>r \<in> set (rows (db w1)). email r = E"
    if first: "createUser env salt (Some u) w = (Inr sent, w1)"
  proof -
    from createUser_sent [OF first] obtain w0 h saved where
      "create env (set_prop u ''password'' (JStr h)) w0 = (Inr saved, w1)"
      by auto
    from create_saved [OF this] obtain r where
      "rows (db w1) = rows (db w0) @ [r]"
      and "email r = column_text env (get_prop (set_prop u ''password'' (JStr h)) ''email'')"
      by blast
    then have "r \<in> set (rows (db w1))" and "email r = E"
      using mail by (simp_all add: get_set_prop_other column_text_def)
    then show ?thesis by blast
  qed
  with once show ?thesis by blast
qed

text \<open>The registered email again, and the same registration twice in a row.\<close>

theorem createUser_duplicate_email_witness:
  "truthy (get_prop [(''firstname'', JStr ''A''), (''lastname'', JStr ''B''),
                     (''email'', JStr ''a@b.com''), (''password'', JStr ''secret'')]
             ''firstname'')
   \<and> truthy (get_prop [(''firstname'', JStr ''A''), (''lastname'', JStr ''B''),
                     (''email'', JStr ''a@b.com''), (''password'', JStr ''secret'')]
             ''lastname'')
   \<and> truthy (get_prop [(''firstname'', JStr ''A''), (''lastname'', JStr ''B''),
                     (''email'', JStr ''a@b.com''), (''password'', JStr ''secret'')]
             ''password'')
   \<and> get_prop [(''firstname'', JStr ''A''), (''lastname'', JStr ''B''),
                (''email'', JStr ''a@b.com''), (''password'', JStr ''secret'')] ''email''
       = JStr ''a@b.com''
   \<and> ''a@b.com'' \<noteq> []
   \<and> (\<exists>r \<in> set (rows (db registered_world)). email r = ''a@b.com'')
   \<and> fst (post_users sample_env ''$$''
        (Some [(''firstname'', JStr ''A''), (''lastname'', JStr ''B''),
               (''email'', JStr ''a@b.com''), (''password'', JStr ''secret'')])
        registered_world)
       = \<lparr>status = 409, body = Text ''This email is already taken.''\<rparr>
   \<and> fst (createUser sample_env ''$$''
        (Some [(''firstname'', JStr ''A''), (''lastname'', JStr ''B''),
               (''email'', JStr ''a@b.com''), (''password'', JStr ''secret'')])
        fresh_world)
       = Inr \<lparr>status = 201, body = Text ''1''\<rparr>
   \<and> fst (post_users sample_env ''%%''
        (Some [(''firstname'', JStr ''A''), (''lastname'', JStr ''B''),
               (''email'', JStr ''a@b.com''), (''password'', JStr ''secret'')])
        (snd (createUser sample_env ''$$''
          (Some [(''firstname'', JStr ''A''), (''lastname'', JStr ''B''),
                 (''email'', JStr ''a@b.com''), (''password'', JStr ''secret'')])
          fresh_world)))
       = \<lparr>status = 409, body = Text ''This email is already taken.''\<rparr>"
proof -
  let ?input = "[(''firstname'', JStr ''A''), (''lastname'', JStr ''B''),
                 (''email'', JStr ''a@b.com''), (''password'', JStr ''secret'')]"
  let ?w1 = "registered_world
          \<lparr>orm_calls :=
             [FindOne (JStr ''a@b.com''),
              Create [(''firstname'', JStr ''A''), (''lastname'', JStr ''B''),
                      (''email'', JStr ''a@b.com''), (''password'', JStr ''$$secret'')]]\<rparr>"
  have valid: "truthy (get_prop ?input ''firstname'')" "truthy (get_prop ?input ''lastname'')"
    "truthy (get_prop ?input ''password'')"
    and mail: "get_prop ?input ''email'' = JStr ''a@b.com''" "''a@b.com'' \<noteq> []"
    by (simp_all add: get_prop_def)
  have taken: "\<exists>r \<in> set (rows (db registered_world)). email r = ''a@b.com''"
    by (simp add: registered_world_def)
  have run: "createUser sample_env ''$$'' (Some ?input) fresh_world
               = (Inr \<lparr>status = 201, body = Text ''1''\<rparr>, ?w1)"
    by (simp add: handler_defs sample_defs show_int_1)
  note both = createUser_duplicate_email [OF valid mail]
  have "fst (post_users sample_env ''$$'' (Some ?input) registered_world)
          = \<lparr>status = 409, body = Text ''This email is already taken.''\<rparr>"
    using both [of registered_world sample_env "''$$''"] taken by simp
  moreover have "fst (post_users sample_env ''%%'' (Some ?input) ?w1)
          = \<lparr>status = 409, body = Text ''This email is already taken.''\<rparr>"
    using both [of fresh_world sample_env "''$$''" "\<lparr>status = 201, body = Text ''1''\<rparr>" ?w1 "''%%''"]
      run by simp
  ultimately show ?thesis
    using valid mail taken run by simp
qed

text \<open>
  C9. Whenever \<open>createUser\<close> passes an error on, whatever the error, the table is as it
  was before the request, also after the error handler has answered.
\<close>

theorem createUser_failure_keeps_store:
  assumes "createUser env salt reqbody w = (Inl e, w')"
  shows "db w' = db w \<and> rows (db (snd (post_users env salt reqbody w))) = rows (db w)"
proof -
  have kept: "db w' = db w"
  proof (cases "validateUser reqbody (Some [''firstname'', ''lastname'', ''email'', ''password''])")
    case (Inl a)
    with assms show ?thesis by (simp add: createUser_def)
  next
    case valid: (Inr b)
    show ?thesis
    proof (cases reqbody)
      case None
      with assms valid show ?thesis by (simp add: createUser_def)
    next
      case (Some u)
      obtain checked w1 where ve: "validateEmail env (get_prop u ''email'') w = (checked, w1)"
        by (cases "validateEmail env (get_prop u ''email'') w")
      then have w1: "db w1 = db w"
        using validateEmail_db [of env "get_prop u ''email''" w] by simp
      show ?thesis
      proof (cases checked)
        case (Inl a)
        with assms valid Some ve w1 show ?thesis by (simp add: createUser_def)
      next
        case unique: (Inr c)
        show ?thesis
        proof (cases "bcrypt_hash env (get_prop u ''password'') 12 salt")
          case (Inl a)
          with assms valid Some ve w1 unique show ?thesis by (simp add: createUser_def)
        next
          case (Inr h)
          obtain res w2 where cr: "create env (set_prop u ''password'' (JStr h)) w1 = (res, w2)"
            by (cases "create env (set_prop u ''password'' (JStr h)) w1")
          with assms valid Some ve unique Inr have "res = Inl e" and "w2 = w'"
            by (auto simp: createUser_def split: sum.splits)
          with cr have "db w' = db w1" by (auto dest: create_rejected)
          with w1 show ?thesis by simp
        qed
      qed
    qed
  qed
  moreover have "snd (post_users env salt reqbody w) = snd (errorHandler e w')"
    using assms by (simp add: post_users_def respond_def)
  ultimately show ?thesis
    by (simp add: errorHandler_def Let_def)
qed

text \<open>A registration under an email that is taken.\<close>

theorem createUser_failure_keeps_store_witness:
  "createUser sample_env ''$$''
     (Some [(''firstname'', JStr ''A''), (''lastname'', JStr ''B''),
            (''email'', JStr ''a@b.com''), (''password'', JStr ''secret'')])
     registered_world
     = (Inl \<lparr>code = Some 409, message = ''This email is already taken.''\<rparr>,
        registered_world\<lparr>orm_calls := [FindOne (JStr ''a@b.com'')]\<rparr>)
   \<and> rows (db (snd (post_users sample_env ''$$''
        (Some [(''firstname'', JStr ''A''), (''lastname'', JStr ''B''),
               (''email'', JStr ''a@b.com''), (''password'', JStr ''secret'')])
        registered_world)))
       = rows (db registered_world)"
proof -
  let ?input = "[(''firstname'', JStr ''A''), (''lastname'', JStr ''B''),
                 (''email'', JStr ''a@b.com''), (''password'', JStr ''secret'')]"
  have run: "createUser sample_env ''$$'' (Some ?input) registered_world
     = (Inl \<lparr>code = Some 409, message = ''This email is already taken.''\<rparr>,
        registered_world\<lparr>orm_calls := [FindOne (JStr ''a@b.com'')]\<rparr>)"
    by (simp add: handler_defs sample_defs)
  from createUser_failure_keeps_store [OF run]
  have "rows (db (snd (post_users sample_env ''$$'' (Some ?input) registered_world)))
          = rows (db registered_world)"
    by (rule conjunct2)
  with run show ?thesis by (rule conjI)
qed

section \<open>Authentication\<close>





section \<open>Registration, then authentication\<close>



section \<open>Lookup by email\<close>

text \<open>
  C6. \<open>findUserByEmail\<close> passes on an error with code 400 and message "Invalid email"
  when the email is falsy, absent in particular; it passes on an error with code 400 and
  message "Could not find a user with the given email" when no row matches the email;
  and when the lookup finds a row, it sends 200 with exactly the id, firstname, lastname
  and email of that row, in this order. Whatever it sends has these four members and no
  other, so never a password.
\<close>

theorem findUserByEmail_cases:
  "(\<not> truthy mail \<longrightarrow>
      fst (findUserByEmail env mail w) = Inl \<lparr>code = Some 400, message = ''Invalid email''\<rparr>
      \<and> fst (get_users env mail w) = \<lparr>status = 400, body = Text ''Invalid email''\<rparr>)
   \<and> (truthy mail \<and> (\<forall>r \<in> set (rows (db w)). \<not> where_email env mail r) \<longrightarrow>
      fst (findUserByEmail env mail w)
        = Inl \<lparr>code = Some 400, message = ''Could not find a user with the given email''\<rparr>
      \<and> fst (get_users env mail w)
        = \<lparr>status = 400, body = Text ''Could not find a user with the given email''\<rparr>)
   \<and> (truthy mail \<and> find (where_email env mail) (rows (db w)) = Some r \<longrightarrow>
      fst (findUserByEmail env mail w)
        = Inr \<lparr>status = 200,
               body = Json [(''id'', JNum (user_id r)), (''firstname'', JStr (firstname r)),
                            (''lastname'', JStr (lastname r)), (''email'', JStr (email r))]\<rparr>
      \<and> fst (get_users env mail w) 
        = \<lparr>status = 200,
           body = Json [(''id'', JNum (user_id r)), (''firstname'', JStr (firstname r)),
                        (''lastname'', JStr (lastname r)), (''email'', JStr (email r))]\<rparr>)
   \<and> (fst (findUserByEmail env mail w) = Inr sent \<longrightarrow>
      (\<exists>obj. sent = \<lparr>status = 200, body = Json obj\<rparr>
         \<and> map fst obj = [''id'', ''firstname'', ''lastname'', ''email'']))"
proof -
  let ?columns = "Some [''id'', ''firstname'', ''lastname'', ''email'']"
  have selected: "select_attributes ?columns (dataValues x) =
      [(''id'', JNum (user_id x)), (''firstname'', JStr (firstname x)),
       (''lastname'', JStr (lastname x)), (''email'', JStr (email x))]" for x
    by (simp add: select_attributes_def dataValues_def)
  have absent: "fst (findUserByEmail env mail w)
                  = Inl \<lparr>code = Some 400, message = ''Invalid email''\<rparr>"
    if "\<not> truthy mail"
    using that by (simp add: findUserByEmail_def getUserByEmail_def createError_def)
  have missing: "fst (findUserByEmail env mail w)
      = Inl \<lparr>code = Some 400, message = ''Could not find a user with the given email''\<rparr>"
    if "truthy mail" and "\<forall>r \<in> set (rows (db w)). \<not> where_email env mail r"
  proof -
    from that(2) have "find (where_email env mail) (rows (db w)) = None"
      by (simp add: find_None_iff)
    with that(1) show ?thesis
      by (simp add: findUserByEmail_def getUserByEmail_def findOne_result createError_def)
  qed
  have found: "fst (findUserByEmail env mail w)
      = Inr \<lparr>status = 200,
             body = Json [(''id'', JNum (user_id r)), (''firstname'', JStr (firstname r)),
                          (''lastname'', JStr (lastname r)), (''email'', JStr (email r))]\<rparr>"
    if "truthy mail" and "find (where_email env mail) (rows (db w)) = Some r"
    using that
    by (simp add: findUserByEmail_def getUserByEmail_def findOne_result selected)
  have shape: "\<exists>obj. sent = \<lparr>status = 200, body = Json obj\<rparr>
                 \<and> map fst obj = [''id'', ''firstname'', ''lastname'', ''email'']"
    if "fst (findUserByEmail env mail w) = Inr sent"
  proof (cases "find (where_email env mail) (rows (db w))")
    case None
    with that show ?thesis
      by (simp add: findUserByEmail_def getUserByEmail_def findOne_result split: if_splits)
  next
    case (Some x)
    with that show ?thesis
      by (auto simp: findUserByEmail_def getUserByEmail_def findOne_result selected
          split: if_splits)
  qed
  show ?thesis
    using absent missing found shape by (simp add: get_users_def respond_error respond_sent)
qed

text \<open>No email, an email that nobody registered, and the registered email.\<close>

theorem findUserByEmail_cases_witness:
  "\<not> truthy JUndefined
   \<and> fst (get_users sample_env JUndefined registered_world)
       = \<lparr>status = 400, body = Text ''Invalid email''\<rparr>
   \<and> truthy (JStr ''x@y.com'')
   \<and> find (where_email sample_env (JStr ''x@y.com'')) (rows (db registered_world)) = None
   \<and> fst (get_users sample_env (JStr ''x@y.com'') registered_world)
       = \<lparr>status = 400, body = Text ''Could not find a user with the given email''\<rparr>
   \<and> truthy (JStr ''a@b.com'')
   \<and> find (where_email sample_env (JStr ''a@b.com'')) (rows (db registered_world))
       = Some \<lparr>user_id = 1, firstname = ''A'', lastname = ''B'', email = ''a@b.com'',
                password = ''$$secret''\<rparr>
   \<and> fst (get_users sample_env (JStr ''a@b.com'') registered_world)
       = \<lparr>status = 200,
          body = Json [(''id'', JNum 1), (''firstname'', JStr ''A''),
                       (''lastname'', JStr ''B''), (''email'', JStr ''a@b.com'')]\<rparr>
   \<and> ''password'' \<notin> set (map fst
         [(''id'', JNum 1), (''firstname'', JStr ''A''), (''lastname'', JStr ''B''),
          (''email'', JStr ''a@b.com'')])"
proof -
  let ?row = "\<lparr>user_id = 1, firstname = ''A'', lastname = ''B'', email = ''a@b.com'',
               password = ''$$secret''\<rparr>"
  let ?obj = "[(''id'', JNum 1), (''firstname'', JStr ''A''), (''lastname'', JStr ''B''),
               (''email'', JStr ''a@b.com'')]"
  have none: "find (where_email sample_env (JStr ''x@y.com'')) (rows (db registered_world))
                = None"
    and found: "find (where_email sample_env (JStr ''a@b.com'')) (rows (db registered_world))
                = Some ?row"
    by (simp_all add: where_email_def registered_world_def)
  from none have nobody:
    "\<forall>r \<in> set (rows (db registered_world)). \<not> where_email sample_env (JStr ''x@y.com'') r"
    by (simp add: find_None_iff)
  note absent_case = findUserByEmail_cases [THEN conjunct1]
  note missing_case = findUserByEmail_cases [THEN conjunct2, THEN conjunct1]
  note found_case = findUserByEmail_cases [THEN conjunct2, THEN conjunct2, THEN conjunct1]
  note shape_case = findUserByEmail_cases [THEN conjunct2, THEN conjunct2, THEN conjunct2]
  have absent: "fst (get_users sample_env JUndefined registered_world)
       = \<lparr>status = 400, body = Text ''Invalid email''\<rparr>"
    using absent_case [of JUndefined sample_env registered_world] by simp
  have missing: "fst (get_users sample_env (JStr ''x@y.com'') registered_world)
       = \<lparr>status = 400, body = Text ''Could not find a user with the given email''\<rparr>"
    using missing_case [of "JStr ''x@y.com''" registered_world sample_env] nobody
    by simp
  have sent: "fst (findUserByEmail sample_env (JStr ''a@b.com'') registered_world)
                = Inr \<lparr>status = 200, body = Json ?obj\<rparr>"
    and answered: "fst (get_users sample_env (JStr ''a@b.com'') registered_world)
                = \<lparr>status = 200, body = Json ?obj\<rparr>"
    using found_case [of "JStr ''a@b.com''" sample_env registered_world ?row] found
    by simp_all
  from shape_case
         [of sample_env "JStr ''a@b.com''" registered_world
             "\<lparr>status = 200, body = Json ?obj\<rparr>", THEN mp, OF sent]
  obtain obj where "\<lparr>status = 200, body = Json ?obj\<rparr> = \<lparr>status = 200, body = Json obj\<rparr>
      \<and> map fst obj = [''id'', ''firstname'', ''lastname'', ''email'']" ..
  then have "''password'' \<notin> set (map fst ?obj)" by simp
  with absent missing answered none found show ?thesis by simp
qed

text \<open>
  C10. With an empty string as email, \<open>findUserByEmail\<close> passes on the error with
  code 400 and message "Invalid email", exactly as it does when the email is absent;
  the response is 400 with that text in both cases, and no call to the model is made.
\<close>

theorem findUserByEmail_empty_email:
  "findUserByEmail env (JStr '''') w
     = (Inl \<lparr>code = Some 400, message = ''Invalid email''\<rparr>, w)
   \<and> findUserByEmail env JUndefined w = findUserByEmail env (JStr '''') w
   \<and> fst (get_users env (JStr '''') w) = \<lparr>status = 400, body = Text ''Invalid email''\<rparr>
   \<and> fst (get_users env JUndefined w) = \<lparr>status = 400, body = Text ''Invalid email''\<rparr>
   \<and> orm_calls (snd (get_users env (JStr '''') w)) = orm_calls w
   \<and> db (snd (get_users env (JStr '''') w)) = db w"
  by (simp add: findUserByEmail_def getUserByEmail_def get_users_def respond_def
      errorHandler_def createError_def Let_def)

end
